theory Spec2Isabelle
  imports Complex_Main "HOL-Library.Char_ord" "HOL-Library.List_Lexorder" "HOL-Library.Log_Nat"
begin

section \<open>Data model (models.py)\<close>

text \<open>
  The three string-valued enumerations of \<^verbatim>\<open>models.py\<close>. Each member carries the
  string it was declared with (\<^verbatim>\<open>Protocol.TCP.value == "TCP"\<close>).
\<close>

datatype protocol = TCP | UDP

datatype action = ALLOW | ALERT | BLOCK

datatype operator = EQ | NE | GT | LT | GE | LE

fun protocol_value :: "protocol \<Rightarrow> string" where
  "protocol_value TCP = ''TCP''"
| "protocol_value UDP = ''UDP''"

text \<open>
  A \<^verbatim>\<open>datetime\<close> value: the calendar fields and, for an aware value, the offset from UTC
  in seconds (\<open>None\<close> for a naive value).
\<close>

record datetime =
  dt_year :: nat
  dt_month :: nat
  dt_day :: nat
  dt_hour :: nat
  dt_minute :: nat
  dt_second :: nat
  dt_microsecond :: nat
  dt_utcoffset :: "int option"

text \<open>\<^verbatim>\<open>ConnectionRequest\<close>: the connection record handed to the engine.\<close>

record connection =
  source_ip :: string
  destination_ip :: string
  destination_port :: int
  protocol :: protocol
  timestamp :: datetime

text \<open>
  \<^verbatim>\<open>PolicyCondition\<close> and \<^verbatim>\<open>Policy\<close>. The fields of a condition are prefixed, since
  \<^verbatim>\<open>field\<close>, \<^verbatim>\<open>operator\<close> and \<^verbatim>\<open>value\<close> are taken in Isabelle.
\<close>

record policy_condition =
  cond_field :: string
  cond_operator :: operator
  cond_value :: string

record policy =
  policy_id :: string
  conditions :: "policy_condition list"
  action :: action

text \<open>
  Python floats are modelled by the rational number they denote (every finite double is a
  rational). Comparison of two doubles is comparison of their values. The anomaly
  detector returns \<^verbatim>\<open>random.random()\<close>, a double in \<open>[0, 1)\<close>; infinities and NaN are
  not in the model.
\<close>

type_synonym pyfloat = rat

record connection_response =
  resp_connection_id :: string
  resp_decision :: action
  resp_anomaly_score :: pyfloat
  resp_matched_policy :: "string option"

record connection_detail =
  det_connection_id :: string
  det_source_ip :: string
  det_destination_ip :: string
  det_destination_port :: int
  det_protocol :: protocol
  det_timestamp :: datetime
  det_decision :: action
  det_anomaly_score :: pyfloat
  det_matched_policy :: "string option"

section \<open>Python values met during evaluation\<close>

text \<open>
  The objects an attribute path into a connection can reach: \<^verbatim>\<open>None\<close>, a \<^verbatim>\<open>str\<close>, an
  \<^verbatim>\<open>int\<close>, a \<^verbatim>\<open>Protocol\<close> member, a \<^verbatim>\<open>datetime\<close>, or any other object (a bound
  method, a class, a container), which is kept opaque and carries the text that
  \<^verbatim>\<open>str()\<close> gives for it. Strings are sequences of bytes (UTF-8); bytewise
  lexicographic order on UTF-8 is the code point order Python compares strings by.
\<close>

datatype pyval =
  PNone
| PStr string
| PInt int
| PEnum protocol
| PDateTime datetime
| PObj string

text \<open>The receiver of an attribute access: the connection itself, or a value reached from it.\<close>

datatype pyobj = Conn connection | Val pyval

text \<open>
  The exceptions that can leave the engine: a TypeError from an ordering comparison, and
  the ValueError of \<^verbatim>\<open>str()\<close> on an int longer than the interpreter's digit limit
  (the \<^verbatim>\<open>except ValueError\<close> of the engine encloses \<^verbatim>\<open>int()\<close> only).
\<close>

datatype pyerr = TypeError | ValueError

text \<open>
  What the code takes from the Python runtime and from pydantic without this repository
  defining it is a parameter of the model:
  \<^item> \<open>lib_attr\<close>: the attributes that the library classes give an object beyond the
    fields declared in \<^verbatim>\<open>models.py\<close> (such as \<^verbatim>\<open>model_dump\<close> on a model, \<^verbatim>\<open>upper\<close> on a
    string, \<^verbatim>\<open>year\<close> on a datetime); \<open>None\<close> where \<^verbatim>\<open>getattr\<close> raises AttributeError;
  \<^item> \<open>unicode_int\<close>: what \<^verbatim>\<open>int()\<close> makes of a literal holding a non-ASCII character
    (Unicode digits and spaces); \<open>None\<close> where it raises ValueError;
  \<^item> \<open>int_max_str_digits\<close>: the interpreter's limit on the number of digits that
    \<^verbatim>\<open>int()\<close> and \<^verbatim>\<open>str()\<close> convert (\<^verbatim>\<open>sys.get_int_max_str_digits()\<close>, 4300 by default,
    0 for no limit).
\<close>

record pylib =
  lib_attr :: "pyobj \<Rightarrow> string \<Rightarrow> pyval option"
  unicode_int :: "string \<Rightarrow> int option"
  int_max_str_digits :: nat

definition default_lib :: pylib where
  "default_lib = \<lparr>lib_attr = (\<lambda>_ _. None), unicode_int = (\<lambda>_. None), int_max_str_digits = 4300\<rparr>"

subsection \<open>\<^verbatim>\<open>str()\<close>\<close>

definition digit_char :: "nat \<Rightarrow> char" where
  "digit_char n = ''0123456789'' ! (n mod 10)"

fun nat_digits :: "nat \<Rightarrow> string" where
  "nat_digits n = (if n < 10 then [digit_char n] else nat_digits (n div 10) @ [digit_char n])"

declare nat_digits.simps [simp del]

definition str_int :: "int \<Rightarrow> string" where
  "str_int i = (if i < 0 then CHR ''-'' # nat_digits (nat (- i)) else nat_digits (nat i))"

text \<open>\<^verbatim>\<open>"%0wd" % n\<close> for a natural number.\<close>

definition zero_pad :: "nat \<Rightarrow> nat \<Rightarrow> string" where
  "zero_pad w n = replicate (w - length (nat_digits n)) (CHR ''0'') @ nat_digits n"

text \<open>
  \<^verbatim>\<open>str()\<close> of a datetime is \<^verbatim>\<open>isoformat(sep=' ')\<close>: the microseconds are printed only
  when they are not zero, the offset only for an aware value, and the seconds of the
  offset only when they are not zero.
\<close>

definition str_utcoffset :: "int \<Rightarrow> string" where
  "str_utcoffset off =
     (let a = nat \<bar>off\<bar>; hh = a div 3600; mm = (a mod 3600) div 60; ss = a mod 60
      in (if off < 0 then ''-'' else ''+'') @ zero_pad 2 hh @ '':'' @ zero_pad 2 mm
         @ (if ss \<noteq> 0 then '':'' @ zero_pad 2 ss else ''''))"

definition str_datetime :: "datetime \<Rightarrow> string" where
  "str_datetime d =
     zero_pad 4 (dt_year d) @ ''-'' @ zero_pad 2 (dt_month d) @ ''-'' @ zero_pad 2 (dt_day d)
     @ '' '' @ zero_pad 2 (dt_hour d) @ '':'' @ zero_pad 2 (dt_minute d) @ '':''
     @ zero_pad 2 (dt_second d)
     @ (if dt_microsecond d \<noteq> 0 then ''.'' @ zero_pad 6 (dt_microsecond d) else '''')
     @ (case dt_utcoffset d of None \<Rightarrow> '''' | Some off \<Rightarrow> str_utcoffset off)"

text \<open>
  \<^verbatim>\<open>str()\<close> of an int raises ValueError when the int has more than 640 digits and more
  than the interpreter's limit. \<^verbatim>\<open>str()\<close> of a member of
  \<^verbatim>\<open>class Protocol(str, Enum)\<close> is the qualified member name, not its value.
\<close>

fun py_str :: "pylib \<Rightarrow> pyval \<Rightarrow> pyerr + string" where
  "py_str L PNone = Inr ''None''"
| "py_str L (PStr s) = Inr s"
| "py_str L (PInt i) =
     (if 640 < length (nat_digits (nat \<bar>i\<bar>)) \<and> 0 < int_max_str_digits L
         \<and> int_max_str_digits L < length (nat_digits (nat \<bar>i\<bar>))
      then Inl ValueError else Inr (str_int i))"
| "py_str L (PEnum p) = Inr (''Protocol.'' @ protocol_value p)"
| "py_str L (PDateTime d) = Inr (str_datetime d)"
| "py_str L (PObj s) = Inr s"

text \<open>\<^verbatim>\<open>str(a) == str(b)\<close>: the left operand is converted first.\<close>

definition str_equal :: "pylib \<Rightarrow> pyval \<Rightarrow> pyval \<Rightarrow> pyerr + bool" where
  "str_equal L a b =
     (case py_str L a of
        Inl e \<Rightarrow> Inl e
      | Inr x \<Rightarrow> (case py_str L b of Inl e \<Rightarrow> Inl e | Inr y \<Rightarrow> Inr (x = y)))"

subsection \<open>\<^verbatim>\<open>int()\<close> of a string\<close>

text \<open>
  \<^verbatim>\<open>int(s)\<close> in base 10, as CPython reads an ASCII literal: leading white space, one
  optional sign, then digits in which single underscores may separate digits (none at the
  start, none at the end, no two in a row), then trailing white space and nothing else.
  At least one digit is required. A literal of more than 640 digits is checked against
  the interpreter's limit and refused when it exceeds it. \<open>None\<close> stands for the
  ValueError.
\<close>

definition is_space :: "char \<Rightarrow> bool" where
  "is_space ch = (ch \<in> set [CHR 0x09, CHR 0x0A, CHR 0x0B, CHR 0x0C, CHR 0x0D, CHR 0x20])"

definition is_digit :: "char \<Rightarrow> bool" where
  "is_digit ch = (ch \<in> set ''0123456789'')"

definition digit_value :: "char \<Rightarrow> int" where
  "digit_value ch = int (of_char ch) - 48"

fun double_underscore :: "string \<Rightarrow> bool" where
  "double_underscore (x # y # zs) = ((x = CHR ''_'' \<and> y = CHR ''_'') \<or> double_underscore (y # zs))"
| "double_underscore _ = False"

definition digits_value :: "string \<Rightarrow> int" where
  "digits_value ds = foldl (\<lambda>acc ch. acc * 10 + digit_value ch) 0 ds"

definition unsigned_int :: "nat \<Rightarrow> string \<Rightarrow> int option" where
  "unsigned_int maxd s =
     (let body = takeWhile (\<lambda>ch. is_digit ch \<or> ch = CHR ''_'') s;
          rest = dropWhile (\<lambda>ch. is_digit ch \<or> ch = CHR ''_'') s;
          ds = filter is_digit body
      in if body = [] then None
         else if hd body = CHR ''_'' then None
         else if double_underscore body then None
         else if last body = CHR ''_'' then None
         else if 640 < length ds \<and> 0 < maxd \<and> maxd < length ds then None
         else if list_ex (\<lambda>ch. \<not> is_space ch) rest then None
         else Some (digits_value ds))"

definition ascii_int :: "nat \<Rightarrow> string \<Rightarrow> int option" where
  "ascii_int maxd s =
     (case dropWhile is_space s of
        [] \<Rightarrow> None
      | ch # t \<Rightarrow>
          if ch = CHR ''-'' then map_option uminus (unsigned_int maxd t)
          else if ch = CHR ''+'' then unsigned_int maxd t
          else unsigned_int maxd (ch # t))"

definition py_int :: "pylib \<Rightarrow> string \<Rightarrow> int option" where
  "py_int L s =
     (if list_ex (\<lambda>ch. 128 \<le> (of_char ch :: nat)) s then unicode_int L s
      else ascii_int (int_max_str_digits L) s)"

subsection \<open>Ordering\<close>

text \<open>
  \<^verbatim>\<open>a < b\<close> and its three siblings on the values the engine compares. Two ints compare
  as numbers; two strings compare lexicographically by code point, and a \<^verbatim>\<open>Protocol\<close>
  member, being a \<^verbatim>\<open>str\<close>, compares as its value. Every other pair (an int or a
  datetime against a string, an opaque object against anything) has no ordering: both
  operands return \<^verbatim>\<open>NotImplemented\<close> and Python raises TypeError.
\<close>

fun as_int :: "pyval \<Rightarrow> int option" where
  "as_int (PInt i) = Some i"
| "as_int _ = None"

fun as_str :: "pyval \<Rightarrow> string option" where
  "as_str (PStr s) = Some s"
| "as_str (PEnum p) = Some (protocol_value p)"
| "as_str _ = None"

definition py_gt :: "pyval \<Rightarrow> pyval \<Rightarrow> pyerr + bool" where
  "py_gt a b =
     (case (as_int a, as_int b) of
        (Some x, Some y) \<Rightarrow> Inr (x > y)
      | _ \<Rightarrow> (case (as_str a, as_str b) of
                (Some x, Some y) \<Rightarrow> Inr (x > y)
              | _ \<Rightarrow> Inl TypeError))"

definition py_lt :: "pyval \<Rightarrow> pyval \<Rightarrow> pyerr + bool" where
  "py_lt a b =
     (case (as_int a, as_int b) of
        (Some x, Some y) \<Rightarrow> Inr (x < y)
      | _ \<Rightarrow> (case (as_str a, as_str b) of
                (Some x, Some y) \<Rightarrow> Inr (x < y)
              | _ \<Rightarrow> Inl TypeError))"

definition py_ge :: "pyval \<Rightarrow> pyval \<Rightarrow> pyerr + bool" where
  "py_ge a b =
     (case (as_int a, as_int b) of
        (Some x, Some y) \<Rightarrow> Inr (x \<ge> y)
      | _ \<Rightarrow> (case (as_str a, as_str b) of
                (Some x, Some y) \<Rightarrow> Inr (x \<ge> y)
              | _ \<Rightarrow> Inl TypeError))"

definition py_le :: "pyval \<Rightarrow> pyval \<Rightarrow> pyerr + bool" where
  "py_le a b =
     (case (as_int a, as_int b) of
        (Some x, Some y) \<Rightarrow> Inr (x \<le> y)
      | _ \<Rightarrow> (case (as_str a, as_str b) of
                (Some x, Some y) \<Rightarrow> Inr (x \<le> y)
              | _ \<Rightarrow> Inl TypeError))"

subsection \<open>\<^verbatim>\<open>getattr\<close>\<close>

text \<open>
  Attribute lookup; \<open>None\<close> stands for the AttributeError. A connection has its five
  declared fields, an enumeration member has \<^verbatim>\<open>value\<close> (and \<^verbatim>\<open>name\<close>, the same string
  for \<^verbatim>\<open>Protocol\<close>). \<^verbatim>\<open>None\<close>, \<^verbatim>\<open>str\<close>, \<^verbatim>\<open>int\<close> and \<^verbatim>\<open>datetime\<close> objects have no
  attribute called \<^verbatim>\<open>value\<close>. Every other name is looked up in the library.
\<close>

fun getattr_py :: "pylib \<Rightarrow> pyobj \<Rightarrow> string \<Rightarrow> pyval option" where
  "getattr_py L (Conn c) a =
     (if a = ''source_ip'' then Some (PStr (source_ip c))
      else if a = ''destination_ip'' then Some (PStr (destination_ip c))
      else if a = ''destination_port'' then Some (PInt (destination_port c))
      else if a = ''protocol'' then Some (PEnum (protocol c))
      else if a = ''timestamp'' then Some (PDateTime (timestamp c))
      else lib_attr L (Conn c) a)"
| "getattr_py L (Val (PEnum p)) a =
     (if a = ''value'' then Some (PStr (protocol_value p))
      else if a = ''name'' then Some (PStr (protocol_value p))
      else lib_attr L (Val (PEnum p)) a)"
| "getattr_py L (Val (PObj s)) a = lib_attr L (Val (PObj s)) a"
| "getattr_py L (Val v) a = (if a = ''value'' then None else lib_attr L (Val v) a)"

section \<open>Policy engine (services/policy\_engine.py)\<close>

text \<open>
  \<^verbatim>\<open>field.split(".")\<close>: the first segment and the remaining ones (the result of
  \<^verbatim>\<open>split\<close> is never empty).
\<close>

fun split_dot :: "string \<Rightarrow> string \<times> string list" where
  "split_dot [] = ([], [])"
| "split_dot (ch # s) =
     (case split_dot s of
        (seg, segs) \<Rightarrow> if ch = CHR ''.'' then ([], seg # segs) else (ch # seg, segs))"

text \<open>The loop \<^verbatim>\<open>for attr in ...: value = getattr(value, attr)\<close> after its first round.\<close>

fun resolve_path :: "pylib \<Rightarrow> pyval \<Rightarrow> string list \<Rightarrow> pyval option" where
  "resolve_path L v [] = Some v"
| "resolve_path L v (a # as) =
     (case getattr_py L (Val v) a of
        None \<Rightarrow> None
      | Some v' \<Rightarrow> resolve_path L v' as)"

definition resolve_field :: "pylib \<Rightarrow> connection \<Rightarrow> string \<Rightarrow> pyval option" where
  "resolve_field L c fld =
     (case split_dot fld of
        (a, as) \<Rightarrow>
          (case getattr_py L (Conn c) a of
             None \<Rightarrow> None
           | Some v \<Rightarrow> resolve_path L v as))"

text \<open>
  \<^verbatim>\<open>_get_field_value\<close>. The AttributeError of an unresolved path is caught and turned
  into \<^verbatim>\<open>None\<close>. A resolved value that has an attribute \<^verbatim>\<open>value\<close> is replaced by it
  when the path holds no dot.
\<close>

definition get_field_value :: "pylib \<Rightarrow> connection \<Rightarrow> string \<Rightarrow> pyval" where
  "get_field_value L c fld =
     (case resolve_field L c fld of
        None \<Rightarrow> PNone
      | Some v \<Rightarrow>
          (case getattr_py L (Val v) ''value'' of
             None \<Rightarrow> v
           | Some u \<Rightarrow> if CHR ''.'' \<in> set fld then v else u))"

text \<open>
  \<^verbatim>\<open>_evaluate_condition\<close>. \<open>Inl\<close> is an exception that leaves the function; the
  ValueError of \<^verbatim>\<open>int()\<close> is caught inside and gives \<^verbatim>\<open>False\<close>. \<open>expected_of\<close> is the
  expected value after the conversion (\<open>None\<close> when the conversion fails).
\<close>

definition expected_of :: "pylib \<Rightarrow> policy_condition \<Rightarrow> pyval option" where
  "expected_of L cd =
     (if cond_field cd = ''destination_port''
      then map_option PInt (py_int L (cond_value cd))
      else Some (PStr (cond_value cd)))"

definition evaluate_condition :: "pylib \<Rightarrow> connection \<Rightarrow> policy_condition \<Rightarrow> pyerr + bool" where
  "evaluate_condition L c cd =
     (let actual_value = get_field_value L c (cond_field cd)
      in if actual_value = PNone then Inr False
         else
           (case expected_of L cd of
              None \<Rightarrow> Inr False
            | Some expected_value \<Rightarrow>
                (case cond_operator cd of
                   EQ \<Rightarrow> str_equal L actual_value expected_value
                 | NE \<Rightarrow> map_sum id Not (str_equal L actual_value expected_value)
                 | GT \<Rightarrow> py_gt actual_value expected_value
                 | LT \<Rightarrow> py_lt actual_value expected_value
                 | GE \<Rightarrow> py_ge actual_value expected_value
                 | LE \<Rightarrow> py_le actual_value expected_value)))"

text \<open>
  \<^verbatim>\<open>_matches_policy\<close>: \<^verbatim>\<open>all()\<close> over a generator evaluates the conditions in order and
  stops at the first false one; an exception raised before that leaves the function.
\<close>

fun all_conditions :: "pylib \<Rightarrow> connection \<Rightarrow> policy_condition list \<Rightarrow> pyerr + bool" where
  "all_conditions L c [] = Inr True"
| "all_conditions L c (cd # cds) =
     (case evaluate_condition L c cd of
        Inl e \<Rightarrow> Inl e
      | Inr b \<Rightarrow> if b then all_conditions L c cds else Inr False)"

definition matches_policy :: "pylib \<Rightarrow> connection \<Rightarrow> policy \<Rightarrow> pyerr + bool" where
  "matches_policy L c p = all_conditions L c (conditions p)"

text \<open>\<^verbatim>\<open>evaluate\<close>: the scan over the list that the store hands over.\<close>

fun evaluate_list :: "pylib \<Rightarrow> connection \<Rightarrow> policy list \<Rightarrow> pyerr + policy option" where
  "evaluate_list L c [] = Inr None"
| "evaluate_list L c (p # ps) =
     (case matches_policy L c p of
        Inl e \<Rightarrow> Inl e
      | Inr b \<Rightarrow> if b then Inr (Some p) else evaluate_list L c ps)"

section \<open>Stores (services/storage.py)\<close>

text \<open>
  Both stores are dictionaries that keep insertion order (an \<^verbatim>\<open>OrderedDict\<close> and a plain
  \<^verbatim>\<open>dict\<close>): a list of key-value pairs in insertion order. Assigning to a key that is
  present replaces its value where it stands; assigning to a new key appends.
\<close>

fun odict_set :: "'k \<Rightarrow> 'v \<Rightarrow> ('k \<times> 'v) list \<Rightarrow> ('k \<times> 'v) list" where
  "odict_set k v [] = [(k, v)]"
| "odict_set k v ((k', v') # kvs) =
     (if k' = k then (k, v) # kvs else (k', v') # odict_set k v kvs)"

fun odict_get :: "('k \<times> 'v) list \<Rightarrow> 'k \<Rightarrow> 'v option" where
  "odict_get [] k = None"
| "odict_get ((k', v') # kvs) k = (if k' = k then Some v' else odict_get kvs k)"

type_synonym policy_store = "(string \<times> policy) list"

type_synonym connection_store = "(string \<times> connection_detail) list"

definition add :: "policy \<Rightarrow> policy_store \<Rightarrow> policy_store" where
  "add p st = odict_set (policy_id p) p st"

definition get :: "policy_store \<Rightarrow> string \<Rightarrow> policy option" where
  "get st pid = odict_get st pid"

definition get_all :: "policy_store \<Rightarrow> policy list" where
  "get_all st = map snd st"

definition delete :: "string \<Rightarrow> policy_store \<Rightarrow> bool \<times> policy_store" where
  "delete pid st =
     (if pid \<in> set (map fst st) then (True, filter (\<lambda>kv. fst kv \<noteq> pid) st) else (False, st))"

definition connection_add :: "connection_detail \<Rightarrow> connection_store \<Rightarrow> connection_store" where
  "connection_add d cs = odict_set (det_connection_id d) d cs"

definition connection_get :: "connection_store \<Rightarrow> string \<Rightarrow> connection_detail option" where
  "connection_get cs cid = odict_get cs cid"

text \<open>
  What holds of every policy store the program can build: the keys are distinct (it is a
  dictionary) and every policy is filed under its own identifier.
\<close>

definition store_ok :: "policy_store \<Rightarrow> bool" where
  "store_ok st = (distinct (map fst st) \<and> list_all (\<lambda>kv. policy_id (snd kv) = fst kv) st)"

text \<open>\<^verbatim>\<open>PolicyEngine.evaluate\<close> reads the list from the store.\<close>

definition evaluate :: "pylib \<Rightarrow> policy_store \<Rightarrow> connection \<Rightarrow> pyerr + policy option" where
  "evaluate L st c = evaluate_list L c (get_all st)"

section \<open>Floating point\<close>

text \<open>
  Rounding a rational to the nearest double, ties to the even significand: this is what a
  float literal such as \<^verbatim>\<open>0.8\<close> denotes, and what converting a decimal string gives.
  \<open>binary_exponent x\<close> is the \<open>e\<close> with \<open>2^e \<le> x < 2^(e+1)\<close> for a positive \<open>x\<close>. The
  spacing of doubles near \<open>x\<close> is \<open>2^(e-52)\<close>, and \<open>2^(-1074)\<close> in the subnormal range.
  Values beyond the largest double are not in the range of the model.
\<close>

definition round_half_even :: "rat \<Rightarrow> int" where
  "round_half_even x =
     (let f = \<lfloor>x\<rfloor>; d = x - of_int f
      in if d < 1 / 2 then f else if 1 / 2 < d then f + 1 else if even f then f else f + 1)"

definition pow2 :: "int \<Rightarrow> rat" where
  "pow2 k = (if 0 \<le> k then 2 ^ nat k else 1 / 2 ^ nat (- k))"

definition binary_exponent :: "rat \<Rightarrow> int" where
  "binary_exponent x =
     (if 1 \<le> x then bitlen \<lfloor>x\<rfloor> - 1
      else (let m = bitlen \<lfloor>1 / x\<rfloor> - 1 in if x * 2 ^ nat m = 1 then - m else - m - 1))"

definition float_of_rat :: "rat \<Rightarrow> pyfloat" where
  "float_of_rat x =
     (if x = 0 then 0
      else (let q = pow2 (max (binary_exponent \<bar>x\<bar> - 52) (- 1074))
            in of_int (round_half_even (x / q)) * q))"

text \<open>
  \<^verbatim>\<open>round(x, ndigits)\<close> on a float: the value is rounded to \<open>ndigits\<close> decimal places
  exactly (ties to even), and the decimal result is converted back to the nearest double.
  Beyond 323 places every double rounds to itself.
\<close>

definition py_round :: "pyfloat \<Rightarrow> nat \<Rightarrow> pyfloat" where
  "py_round x ndigits =
     (if 323 < ndigits then x
      else float_of_rat (of_int (round_half_even (x * 10 ^ ndigits)) / 10 ^ ndigits))"

section \<open>Decision (main.py)\<close>

text \<open>
  The decision step of \<^verbatim>\<open>submit_connection\<close>: the base action of the matched policy, or
  block when there is none, and the escalation of allow to alert when the score is above
  the float \<^verbatim>\<open>0.8\<close>.
\<close>

definition decide :: "policy option \<Rightarrow> pyfloat \<Rightarrow> action \<times> string option" where
  "decide matched_policy anomaly_score =
     (let (act, matched_policy_id) =
            (case matched_policy of
               Some p \<Rightarrow> (action p, Some (policy_id p))
             | None \<Rightarrow> (BLOCK, None))
      in (if float_of_rat (8 / 10) < anomaly_score \<and> act = ALLOW then ALERT else act,
          matched_policy_id))"

text \<open>
  \<^verbatim>\<open>submit_connection\<close>. The fresh identifier (\<^verbatim>\<open>uuid4\<close>) and the score of the anomaly
  detector are inputs; the result is the response and the connection store after the
  call, or the exception that the engine let through.
\<close>

definition submit_connection ::
  "pylib \<Rightarrow> policy_store \<Rightarrow> connection_store \<Rightarrow> string \<Rightarrow> pyfloat \<Rightarrow> connection
     \<Rightarrow> pyerr + (connection_response \<times> connection_store)" where
  "submit_connection L st cs connection_id anomaly_score request =
     (case evaluate L st request of
        Inl e \<Rightarrow> Inl e
      | Inr matched_policy \<Rightarrow>
          (case decide matched_policy anomaly_score of
             (act, matched_policy_id) \<Rightarrow>
               Inr (\<lparr>resp_connection_id = connection_id,
                      resp_decision = act,
                      resp_anomaly_score = py_round anomaly_score 2,
                      resp_matched_policy = matched_policy_id\<rparr>,
                    connection_add
                      \<lparr>det_connection_id = connection_id,
                       det_source_ip = source_ip request,
                       det_destination_ip = destination_ip request,
                       det_destination_port = destination_port request,
                       det_protocol = protocol request,
                       det_timestamp = timestamp request,
                       det_decision = act,
                       det_anomaly_score = anomaly_score,
                       det_matched_policy = matched_policy_id\<rparr> cs)))"

text \<open>\<^verbatim>\<open>create_policy\<close>: the policy of the request is added to the store and returned.\<close>

definition create_policy :: "policy \<Rightarrow> policy_store \<Rightarrow> policy \<times> policy_store" where
  "create_policy request st = (request, add request st)"

section \<open>Example inputs\<close>

text \<open>The connection of the test suite's fixture.\<close>

definition example_connection :: connection where
  "example_connection =
     \<lparr>source_ip = ''192.168.1.100'', destination_ip = ''10.0.0.1'', destination_port = 443,
      protocol = TCP,
      timestamp = \<lparr>dt_year = 2024, dt_month = 1, dt_day = 15, dt_hour = 10, dt_minute = 30,
                   dt_second = 0, dt_microsecond = 0, dt_utcoffset = None\<rparr>\<rparr>"

text \<open>A policy with one ordering condition on the timestamp, and one with no condition.\<close>

definition late_policy :: policy where
  "late_policy =
     \<lparr>policy_id = ''late'',
      conditions = [\<lparr>cond_field = ''timestamp'', cond_operator = GT,
                     cond_value = ''2024-01-01T00:00:00''\<rparr>],
      action = BLOCK\<rparr>"

definition any_policy :: policy where
  "any_policy = \<lparr>policy_id = ''any'', conditions = [], action = ALLOW\<rparr>"

text \<open>
  A library in which one member of an enumeration is reachable from another
  (\<^verbatim>\<open>Protocol.TCP.UDP\<close>), as some Python versions allow: a dotted path that ends in an
  enumeration member.
\<close>

definition member_lib :: pylib where
  "member_lib =
     \<lparr>lib_attr = (\<lambda>obj a. if obj = Val (PEnum TCP) \<and> a = ''UDP'' then Some (PEnum UDP) else None),
      unicode_int = (\<lambda>_. None),
      int_max_str_digits = 4300\<rparr>"

text \<open>
  A library in which an int has the attribute \<^verbatim>\<open>real\<close>, its own value, as every Python
  int does.
\<close>

definition real_lib :: pylib where
  "real_lib =
     \<lparr>lib_attr = (\<lambda>obj a. case obj of
                     Val (PInt n) \<Rightarrow> if a = ''real'' then Some (PInt n) else None
                   | _ \<Rightarrow> None),
      unicode_int = (\<lambda>_. None),
      int_max_str_digits = 4300\<rparr>"

section \<open>Field extraction on the declared fields\<close>

lemma split_dot_no_dot: "CHR ''.'' \<notin> set s \<Longrightarrow> split_dot s = (s, [])"
  by (induction s) auto

lemma field_destination_port:
  "get_field_value L c ''destination_port'' = PInt (destination_port c)"
  by (simp add: get_field_value_def resolve_field_def)

lemma field_timestamp:
  "get_field_value L c ''timestamp'' = PDateTime (timestamp c)"
  by (simp add: get_field_value_def resolve_field_def)

lemma field_source_ip:
  "get_field_value L c ''source_ip'' = PStr (source_ip c)"
  by (simp add: get_field_value_def resolve_field_def)

text \<open>
  The expected value of a condition on \<^verbatim>\<open>timestamp\<close> stays a string, and a datetime has
  no ordering against a string: each of the four ordering operators raises.
\<close>

lemma timestamp_ordering:
  "op \<noteq> EQ \<Longrightarrow> op \<noteq> NE \<Longrightarrow>
   evaluate_condition L c \<lparr>cond_field = ''timestamp'', cond_operator = op, cond_value = v\<rparr>
     = Inl TypeError"
  by (cases op)
     (simp_all add: evaluate_condition_def expected_of_def field_timestamp
        py_gt_def py_lt_def py_ge_def py_le_def)

lemma py_int_443: "py_int L ''443'' = Some 443"
  by (simp add: py_int_def ascii_int_def unsigned_int_def is_space_def is_digit_def
        digits_value_def digit_value_def Let_def)

lemma str_int_443: "str_int 443 = ''443''"
  by (simp add: str_int_def nat_digits.simps digit_char_def)

lemma nat_digits_443: "nat_digits 443 = ''443''"
  by (simp add: nat_digits.simps digit_char_def)

section \<open>The first-match scan\<close>

lemma all_conditions_no_raise:
  "\<forall>cd \<in> set cds. \<not> isl (evaluate_condition L c cd) \<Longrightarrow>
   all_conditions L c cds = Inr (list_all (\<lambda>cd. evaluate_condition L c cd = Inr True) cds)"
proof (induction cds)
  case Nil
  then show ?case by simp
next
  case (Cons cd cds)
  then obtain b where b: "evaluate_condition L c cd = Inr b"
    by (cases "evaluate_condition L c cd") auto
  with Cons show ?case by simp
qed

text \<open>
  Where no condition of the list raises, the scan returns the first policy all of whose
  conditions are true, and nothing when there is none.
\<close>

lemma evaluate_list_first_match:
  "\<forall>p \<in> set ps. \<forall>cd \<in> set (conditions p). \<not> isl (evaluate_condition L c cd) \<Longrightarrow>
   evaluate_list L c ps =
     Inr (find (\<lambda>p. list_all (\<lambda>cd. evaluate_condition L c cd = Inr True) (conditions p)) ps)"
proof (induction ps)
  case Nil
  then show ?case by simp
next
  case (Cons p ps)
  then have "matches_policy L c p =
      Inr (list_all (\<lambda>cd. evaluate_condition L c cd = Inr True) (conditions p))"
    by (simp add: matches_policy_def all_conditions_no_raise)
  with Cons show ?case by simp
qed

text \<open>
  Claim C1 (first match wins, for every policy list). The scan does not reach a later
  match when an earlier policy holds an ordering condition on the timestamp: with the
  store holding \<open>late_policy\<close> and then \<open>any_policy\<close>, the second policy has no condition
  and matches every connection, yet \<open>evaluate\<close> returns no policy at all: the TypeError
  raised while the first policy is tried leaves the function.
\<close>

theorem evaluate_raises_before_match:
  "matches_policy L c any_policy = Inr True \<and>
   evaluate L (add any_policy (add late_policy [])) c = Inl TypeError"
  by (simp add: evaluate_def get_all_def add_def matches_policy_def any_policy_def
      late_policy_def timestamp_ordering)

theorem evaluate_raises_before_match_witness:
  "matches_policy default_lib example_connection any_policy = Inr True \<and>
   evaluate default_lib (add any_policy (add late_policy [])) example_connection = Inl TypeError"
  using evaluate_raises_before_match [of default_lib example_connection] by simp

section \<open>The decision step\<close>

lemma float_080: "float_of_rat (8 / 10) = 3602879701896397 / 4503599627370496"
  by code_simp

lemma float_081: "float_of_rat (81 / 100) = 1823957849085051 / 2251799813685248"
  by code_simp

lemma odict_get_set: "odict_get (odict_set k v kvs) k = Some v"
  by (induction kvs) auto

lemma submit_connection_returns:
  "evaluate L st c = Inr m \<Longrightarrow>
   submit_connection L st cs cid s c =
     Inr (\<lparr>resp_connection_id = cid, resp_decision = fst (decide m s),
            resp_anomaly_score = py_round s 2, resp_matched_policy = snd (decide m s)\<rparr>,
          connection_add
            \<lparr>det_connection_id = cid, det_source_ip = source_ip c,
             det_destination_ip = destination_ip c, det_destination_port = destination_port c,
             det_protocol = protocol c, det_timestamp = timestamp c,
             det_decision = fst (decide m s), det_anomaly_score = s,
             det_matched_policy = snd (decide m s)\<rparr> cs)"
  by (simp add: submit_connection_def split: prod.splits)

lemma decide_Some:
  "decide (Some p) s =
     (if action p = ALLOW \<and> float_of_rat (8 / 10) < s then ALERT else action p,
      Some (policy_id p))"
  by (auto simp add: decide_def)

lemma decide_None: "decide None s = (BLOCK, None)"
  by (simp add: decide_def)

text \<open>
  Claim C2. For a matched policy \<open>p\<close> and any score, the final action is the policy's
  action, except that allow becomes alert exactly when the score is above the float
  \<^verbatim>\<open>0.8\<close>: the score \<^verbatim>\<open>0.80\<close> leaves allow as it is, \<^verbatim>\<open>0.81\<close> escalates it, and block
  and alert are returned unchanged whatever the score. The response of
  \<^verbatim>\<open>submit_connection\<close> carries that action and the policy's identifier.
\<close>

theorem decide_escalation:
  "decide (Some p) s =
     (if action p = ALLOW \<and> float_of_rat (8 / 10) < s then ALERT else action p,
      Some (policy_id p))
   \<and> decide (Some (p\<lparr>action := ALLOW\<rparr>)) (float_of_rat (80 / 100)) = (ALLOW, Some (policy_id p))
   \<and> decide (Some (p\<lparr>action := ALLOW\<rparr>)) (float_of_rat (81 / 100)) = (ALERT, Some (policy_id p))
   \<and> decide (Some (p\<lparr>action := BLOCK\<rparr>)) s = (BLOCK, Some (policy_id p))
   \<and> decide (Some (p\<lparr>action := ALERT\<rparr>)) s = (ALERT, Some (policy_id p))
   \<and> (evaluate L st c = Inr (Some p) \<longrightarrow>
        (\<exists>resp cs'. submit_connection L st cs cid s c = Inr (resp, cs')
           \<and> resp_decision resp =
               (if action p = ALLOW \<and> float_of_rat (8 / 10) < s then ALERT else action p)
           \<and> resp_matched_policy resp = Some (policy_id p)))"
proof -
  have "float_of_rat (81 / 100) > float_of_rat (8 / 10)"
    by (simp only: float_080 float_081)
  moreover have "float_of_rat (80 / 100) = float_of_rat (8 / 10)"
    by simp
  ultimately show ?thesis
    by (simp add: decide_Some submit_connection_returns)
qed

theorem decide_escalation_witness:
  "evaluate default_lib (add any_policy []) example_connection = Inr (Some any_policy)
   \<and> (\<exists>resp cs'. submit_connection default_lib (add any_policy []) [] ''c-1''
                     (float_of_rat (81 / 100)) example_connection = Inr (resp, cs')
         \<and> resp_decision resp = ALERT \<and> resp_matched_policy resp = Some ''any'')
   \<and> decide (Some late_policy) (99 / 100) = (BLOCK, Some ''late'')"
proof -
  have e: "evaluate default_lib (add any_policy []) example_connection = Inr (Some any_policy)"
    by (simp add: evaluate_def add_def get_all_def matches_policy_def any_policy_def)
  have g: "float_of_rat (8 / 10) < float_of_rat (81 / 100)"
    by (simp only: float_080 float_081)
  show ?thesis
    using e g
      decide_escalation [of any_policy "float_of_rat (81 / 100)" default_lib "add any_policy []"
        example_connection "[]" "''c-1''"]
      decide_escalation [of late_policy "99 / 100"]
    by (simp add: any_policy_def late_policy_def)
qed

text \<open>
  Claim C3. When the engine returns no policy, the decision is block with no matched
  policy identifier, for every score; the response and the stored record both say so.
\<close>

theorem no_match_blocks:
  "decide None s = (BLOCK, None)
   \<and> (evaluate L st c = Inr None \<longrightarrow>
        (\<exists>resp cs' d. submit_connection L st cs cid s c = Inr (resp, cs')
           \<and> resp_decision resp = BLOCK \<and> resp_matched_policy resp = None
           \<and> connection_get cs' cid = Some d
           \<and> det_decision d = BLOCK \<and> det_matched_policy d = None))"
  by (simp add: decide_None submit_connection_returns connection_get_def connection_add_def
      odict_get_set)

theorem no_match_blocks_witness:
  "evaluate default_lib [] example_connection = Inr None
   \<and> (\<exists>resp cs' d. submit_connection default_lib [] [] ''c-2'' (95 / 100) example_connection
                       = Inr (resp, cs')
         \<and> resp_decision resp = BLOCK \<and> resp_matched_policy resp = None
         \<and> connection_get cs' ''c-2'' = Some d
         \<and> det_decision d = BLOCK \<and> det_matched_policy d = None)"
proof -
  have e: "evaluate default_lib [] example_connection = Inr None"
    by (simp add: evaluate_def get_all_def)
  show ?thesis
    using e no_match_blocks [of "95 / 100" default_lib "[]" example_connection "[]" "''c-2''"]
    by simp
qed


section \<open>Condition evaluation\<close>

text \<open>
  Claim C4 (condition evaluation never raises). On the field \<^verbatim>\<open>timestamp\<close> each of the
  four ordering operators raises TypeError, for every connection and every expected
  literal: the literal stays a string, and a datetime does not order against a string.
\<close>

theorem ordering_on_timestamp_raises:
  "evaluate_condition L c \<lparr>cond_field = ''timestamp'', cond_operator = GT, cond_value = v\<rparr>
     = Inl TypeError
   \<and> evaluate_condition L c \<lparr>cond_field = ''timestamp'', cond_operator = LT, cond_value = v\<rparr>
     = Inl TypeError
   \<and> evaluate_condition L c \<lparr>cond_field = ''timestamp'', cond_operator = GE, cond_value = v\<rparr>
     = Inl TypeError
   \<and> evaluate_condition L c \<lparr>cond_field = ''timestamp'', cond_operator = LE, cond_value = v\<rparr>
     = Inl TypeError"
  by (simp add: timestamp_ordering)

theorem ordering_on_timestamp_raises_witness:
  "evaluate_condition default_lib example_connection
     \<lparr>cond_field = ''timestamp'', cond_operator = GT, cond_value = ''2024-01-01T00:00:00''\<rparr>
     = Inl TypeError"
  using ordering_on_timestamp_raises [of default_lib example_connection "''2024-01-01T00:00:00''"]
  by simp

text \<open>
  A path fails to resolve exactly when one of its segments names no attribute of the
  object reached so far: the first segment on the connection, or a later one on a value.
\<close>

lemma resolve_path_append:
  "resolve_path L v (pre @ rest) =
     (case resolve_path L v pre of None \<Rightarrow> None | Some u \<Rightarrow> resolve_path L u rest)"
  by (induction pre arbitrary: v) (auto split: option.splits)

lemma resolve_path_fails_at:
  "resolve_path L v pre = Some u \<Longrightarrow> getattr_py L (Val u) b = None \<Longrightarrow>
   resolve_path L v (pre @ b # post) = None"
  by (simp add: resolve_path_append)

lemma resolve_path_None_iff:
  "resolve_path L v as = None \<longleftrightarrow>
     (\<exists>pre b post u. as = pre @ b # post \<and> resolve_path L v pre = Some u
        \<and> getattr_py L (Val u) b = None)"
proof
  show "resolve_path L v as = None \<Longrightarrow>
     \<exists>pre b post u. as = pre @ b # post \<and> resolve_path L v pre = Some u
        \<and> getattr_py L (Val u) b = None"
  proof (induction as arbitrary: v)
    case Nil
    then show ?case by simp
  next
    case (Cons a as)
    show ?case
    proof (cases "getattr_py L (Val v) a")
      case None
      then have "a # as = [] @ a # as \<and> resolve_path L v [] = Some v
          \<and> getattr_py L (Val v) a = None" by simp
      then show ?thesis by blast
    next
      case (Some w)
      with Cons.prems have "resolve_path L w as = None" by simp
      from Cons.IH [OF this] obtain pre b post u where
        "as = pre @ b # post" "resolve_path L w pre = Some u" "getattr_py L (Val u) b = None"
        by blast
      with Some have "a # as = (a # pre) @ b # post \<and> resolve_path L v (a # pre) = Some u
          \<and> getattr_py L (Val u) b = None" by simp
      then show ?thesis by blast
    qed
  qed
next
  show "\<exists>pre b post u. as = pre @ b # post \<and> resolve_path L v pre = Some u
        \<and> getattr_py L (Val u) b = None \<Longrightarrow> resolve_path L v as = None"
    by (auto simp add: resolve_path_fails_at)
qed

lemma first_segment_fails:
  assumes "getattr_py L (Conn c) (fst (split_dot fld)) = None"
  shows "resolve_field L c fld = None"
proof -
  obtain a as where s: "split_dot fld = (a, as)"
    by (cases "split_dot fld")
  with assms have "getattr_py L (Conn c) a = None"
    by (simp only: fst_conv)
  with s show ?thesis
    by (simp only: resolve_field_def prod.case option.case)
qed

lemma unresolved_false:
  "resolve_field L c (cond_field cd) = None \<Longrightarrow> evaluate_condition L c cd = Inr False"
  by (simp add: evaluate_condition_def get_field_value_def)

lemma field_protocol_value:
  "get_field_value L c ''protocol.value'' = PStr (protocol_value (protocol c))"
  by (simp add: get_field_value_def resolve_field_def)

text \<open>
  Claim C5 (a path that descends into a non-composite value does not resolve, and the
  condition is false for every operator). The path \<^verbatim>\<open>protocol.value\<close> descends into the
  enumeration member and resolves to its string, and \<^verbatim>\<open>destination_port.real\<close> descends
  into the int and resolves to the port: the not-equals conditions
  \<^verbatim>\<open>protocol.value != "UDP"\<close> and \<^verbatim>\<open>destination_port.real != "80"\<close> are true on the
  example connection.
\<close>

theorem descent_resolves_counterexample:
  "evaluate_condition default_lib example_connection
     \<lparr>cond_field = ''protocol.value'', cond_operator = NE, cond_value = ''UDP''\<rparr> = Inr True
   \<and> evaluate_condition real_lib example_connection
     \<lparr>cond_field = ''destination_port.real'', cond_operator = NE, cond_value = ''80''\<rparr> = Inr True"
proof -
  have "get_field_value real_lib example_connection ''destination_port.real'' = PInt 443"
    by (simp add: get_field_value_def resolve_field_def real_lib_def example_connection_def)
  then show ?thesis
    by (simp add: evaluate_condition_def expected_of_def field_protocol_value str_equal_def
        str_int_443 nat_digits_443 example_connection_def)
qed

text \<open>
  Claim C5, amended. A condition is false for every operator, not-equals included, when
  the attribute lookup fails along its path: the first segment is none of the five
  declared fields and no library attribute of the connection, or a later segment is no
  attribute of the value reached so far. Descending into a non-composite value is not a
  failure by itself: \<^verbatim>\<open>protocol.value\<close> resolves to the member's string on every
  connection, and \<^verbatim>\<open>protocol.value != w\<close> is true exactly when that string differs from
  \<open>w\<close>. A condition on \<^verbatim>\<open>destination_port\<close> whose literal \<^verbatim>\<open>int()\<close> refuses is false.
\<close>

theorem failed_lookup_or_unparsed_is_false:
  "(fst (split_dot (cond_field cd))
        \<notin> set [''source_ip'', ''destination_ip'', ''destination_port'', ''protocol'', ''timestamp'']
      \<and> lib_attr L (Conn c) (fst (split_dot (cond_field cd))) = None
      \<longrightarrow> evaluate_condition L c cd = Inr False)
   \<and> (split_dot (cond_field cd) = (a, pre @ b # post)
      \<and> getattr_py L (Conn c) a = Some v \<and> resolve_path L v pre = Some u
      \<and> getattr_py L (Val u) b = None
      \<longrightarrow> evaluate_condition L c cd = Inr False)
   \<and> evaluate_condition L c
        \<lparr>cond_field = ''protocol.value'', cond_operator = NE, cond_value = w\<rparr>
        = Inr (protocol_value (protocol c) \<noteq> w)
   \<and> (cond_field cd = ''destination_port'' \<and> py_int L (cond_value cd) = None
      \<longrightarrow> evaluate_condition L c cd = Inr False)"
proof -
  have 1: "evaluate_condition L c cd = Inr False"
    if "fst (split_dot (cond_field cd))
        \<notin> set [''source_ip'', ''destination_ip'', ''destination_port'', ''protocol'', ''timestamp'']"
      and "lib_attr L (Conn c) (fst (split_dot (cond_field cd))) = None"
  proof -
    from that have "getattr_py L (Conn c) (fst (split_dot (cond_field cd))) = None"
      by simp
    then have "resolve_field L c (cond_field cd) = None"
      by (rule first_segment_fails)
    then show ?thesis by (rule unresolved_false)
  qed
  have 2: "evaluate_condition L c cd = Inr False"
    if "split_dot (cond_field cd) = (a, pre @ b # post)"
      and "getattr_py L (Conn c) a = Some v" and "resolve_path L v pre = Some u"
      and "getattr_py L (Val u) b = None"
  proof -
    from that have "resolve_field L c (cond_field cd) = None"
      by (simp add: resolve_field_def resolve_path_fails_at)
    then show ?thesis by (rule unresolved_false)
  qed
  have 3: "evaluate_condition L c
        \<lparr>cond_field = ''protocol.value'', cond_operator = NE, cond_value = w\<rparr>
        = Inr (protocol_value (protocol c) \<noteq> w)"
    by (simp add: evaluate_condition_def expected_of_def field_protocol_value str_equal_def)
  have 4: "evaluate_condition L c cd = Inr False"
    if "cond_field cd = ''destination_port''" and "py_int L (cond_value cd) = None"
  proof -
    from that have "expected_of L cd = None"
      by (simp add: expected_of_def)
    then show ?thesis
      by (simp add: evaluate_condition_def Let_def)
  qed
  from 1 2 3 4 show ?thesis by blast
qed

lemma py_int_abc: "py_int default_lib ''abc'' = None"
  by (simp add: py_int_def default_lib_def ascii_int_def unsigned_int_def is_space_def
      is_digit_def)

theorem failed_lookup_or_unparsed_is_false_witness:
  "lib_attr real_lib (Conn example_connection) ''nonexistent'' = None
   \<and> evaluate_condition real_lib example_connection
        \<lparr>cond_field = ''nonexistent'', cond_operator = NE, cond_value = ''any''\<rparr> = Inr False
   \<and> split_dot ''source_ip.first'' = (''source_ip'', [''first''])
   \<and> getattr_py real_lib (Val (PStr ''192.168.1.100'')) ''first'' = None
   \<and> evaluate_condition real_lib example_connection
        \<lparr>cond_field = ''source_ip.first'', cond_operator = NE, cond_value = ''any''\<rparr> = Inr False
   \<and> evaluate_condition real_lib example_connection
        \<lparr>cond_field = ''protocol.value'', cond_operator = NE, cond_value = ''UDP''\<rparr> = Inr True
   \<and> py_int default_lib ''abc'' = None
   \<and> evaluate_condition default_lib example_connection
        \<lparr>cond_field = ''destination_port'', cond_operator = EQ, cond_value = ''abc''\<rparr> = Inr False"
proof -
  have a: "lib_attr real_lib (Conn example_connection) ''nonexistent'' = None"
    by (simp add: real_lib_def)
  have b: "split_dot ''source_ip.first'' = (''source_ip'', [] @ ''first'' # [])"
    by simp
  have c: "getattr_py real_lib (Conn example_connection) ''source_ip''
      = Some (PStr ''192.168.1.100'')"
    by (simp add: example_connection_def)
  have d: "getattr_py real_lib (Val (PStr ''192.168.1.100'')) ''first'' = None"
    by (simp add: real_lib_def)
  show ?thesis
    using a b c d py_int_abc
      failed_lookup_or_unparsed_is_false [of
        "\<lparr>cond_field = ''nonexistent'', cond_operator = NE, cond_value = ''any''\<rparr>"
        real_lib example_connection]
      failed_lookup_or_unparsed_is_false [of
        "\<lparr>cond_field = ''source_ip.first'', cond_operator = NE, cond_value = ''any''\<rparr>"
        real_lib example_connection "''source_ip''" "[]" "''first''" "[]"
        "PStr ''192.168.1.100''" "PStr ''192.168.1.100''" "''UDP''"]
      failed_lookup_or_unparsed_is_false [of
        "\<lparr>cond_field = ''destination_port'', cond_operator = EQ, cond_value = ''abc''\<rparr>"
        default_lib example_connection]
    by (simp add: example_connection_def)
qed

text \<open>
  Claim C6. Equals and not-equals compare the \<^verbatim>\<open>str()\<close> of the actual value with the
  \<^verbatim>\<open>str()\<close> of the expected value; the port 443 and the literal \<^verbatim>\<open>"443"\<close> have the
  same text, so on a connection to port 443 the condition \<^verbatim>\<open>destination_port != "443"\<close>
  is false (and \<^verbatim>\<open>destination_port == "443"\<close> is true).
\<close>

theorem equality_compares_str:
  "(get_field_value L c (cond_field cd) = a \<and> a \<noteq> PNone \<and> expected_of L cd = Some e
      \<and> py_str L a = Inr x \<and> py_str L e = Inr y \<longrightarrow>
      (cond_operator cd = EQ \<longrightarrow> evaluate_condition L c cd = Inr (x = y))
      \<and> (cond_operator cd = NE \<longrightarrow> evaluate_condition L c cd = Inr (x \<noteq> y)))
   \<and> py_str L (PInt 443) = py_str L (PStr ''443'')
   \<and> (destination_port c = 443 \<longrightarrow>
        evaluate_condition L c
          \<lparr>cond_field = ''destination_port'', cond_operator = EQ, cond_value = ''443''\<rparr> = Inr True
        \<and> evaluate_condition L c
          \<lparr>cond_field = ''destination_port'', cond_operator = NE, cond_value = ''443''\<rparr> = Inr False)"
  by (simp add: evaluate_condition_def expected_of_def field_destination_port py_int_443
      str_int_443 nat_digits_443 str_equal_def)

theorem equality_compares_str_witness:
  "destination_port example_connection = 443
   \<and> evaluate_condition default_lib example_connection
        \<lparr>cond_field = ''destination_port'', cond_operator = NE, cond_value = ''443''\<rparr> = Inr False
   \<and> evaluate_condition default_lib example_connection
        \<lparr>cond_field = ''destination_port'', cond_operator = EQ, cond_value = ''443''\<rparr> = Inr True
   \<and> get_field_value default_lib example_connection ''source_ip'' = PStr ''192.168.1.100''
   \<and> expected_of default_lib
        \<lparr>cond_field = ''source_ip'', cond_operator = NE, cond_value = ''10.0.0.5''\<rparr>
        = Some (PStr ''10.0.0.5'')
   \<and> evaluate_condition default_lib example_connection
        \<lparr>cond_field = ''source_ip'', cond_operator = NE, cond_value = ''10.0.0.5''\<rparr> = Inr True"
proof -
  have p: "destination_port example_connection = 443"
    by (simp add: example_connection_def)
  have f: "get_field_value default_lib example_connection ''source_ip'' = PStr ''192.168.1.100''"
    by (simp add: field_source_ip example_connection_def)
  have x: "expected_of default_lib
        \<lparr>cond_field = ''source_ip'', cond_operator = NE, cond_value = ''10.0.0.5''\<rparr>
        = Some (PStr ''10.0.0.5'')"
    by (simp add: expected_of_def)
  show ?thesis
    using p f x
      equality_compares_str [of default_lib example_connection
        "\<lparr>cond_field = ''source_ip'', cond_operator = NE, cond_value = ''10.0.0.5''\<rparr>"
        "PStr ''192.168.1.100''" "PStr ''10.0.0.5''" "''192.168.1.100''" "''10.0.0.5''"]
    by simp
qed

text \<open>Ordering on the port is numeric, on a string field lexicographic.\<close>

lemma ordering_port_numeric:
  "py_int L v = Some n \<Longrightarrow>
   evaluate_condition L c \<lparr>cond_field = ''destination_port'', cond_operator = GT, cond_value = v\<rparr>
     = Inr (n < destination_port c)
   \<and> evaluate_condition L c \<lparr>cond_field = ''destination_port'', cond_operator = LT, cond_value = v\<rparr>
     = Inr (destination_port c < n)
   \<and> evaluate_condition L c \<lparr>cond_field = ''destination_port'', cond_operator = GE, cond_value = v\<rparr>
     = Inr (n \<le> destination_port c)
   \<and> evaluate_condition L c \<lparr>cond_field = ''destination_port'', cond_operator = LE, cond_value = v\<rparr>
     = Inr (destination_port c \<le> n)"
  by (simp add: evaluate_condition_def expected_of_def field_destination_port
      py_gt_def py_lt_def py_ge_def py_le_def)

lemma ordering_source_ip_lexicographic:
  "evaluate_condition L c \<lparr>cond_field = ''source_ip'', cond_operator = GT, cond_value = v\<rparr>
     = Inr (v < source_ip c)
   \<and> evaluate_condition L c \<lparr>cond_field = ''source_ip'', cond_operator = LT, cond_value = v\<rparr>
     = Inr (source_ip c < v)
   \<and> evaluate_condition L c \<lparr>cond_field = ''source_ip'', cond_operator = GE, cond_value = v\<rparr>
     = Inr (v \<le> source_ip c)
   \<and> evaluate_condition L c \<lparr>cond_field = ''source_ip'', cond_operator = LE, cond_value = v\<rparr>
     = Inr (source_ip c \<le> v)"
  by (simp add: evaluate_condition_def expected_of_def field_source_ip
      py_gt_def py_lt_def py_ge_def py_le_def)

text \<open>
  Claim C7 (ordering operators use the native order, chronological on the timestamp).
  The timestamp of the example connection, 15 January 2024, lies after the first literal
  and before the second, yet neither comparison returns true: both raise TypeError.
\<close>

theorem timestamp_not_chronological:
  "evaluate_condition L example_connection
     \<lparr>cond_field = ''timestamp'', cond_operator = GE, cond_value = ''2024-01-01 00:00:00''\<rparr>
     = Inl TypeError
   \<and> evaluate_condition L example_connection
     \<lparr>cond_field = ''timestamp'', cond_operator = LE, cond_value = ''2024-12-31 00:00:00''\<rparr>
     = Inl TypeError"
  by (simp add: timestamp_ordering)

theorem timestamp_not_chronological_witness:
  "evaluate_condition default_lib example_connection
     \<lparr>cond_field = ''timestamp'', cond_operator = GE, cond_value = ''2024-01-01 00:00:00''\<rparr>
     = Inl TypeError"
  using timestamp_not_chronological [of default_lib] by simp

section \<open>Enumeration unwrapping\<close>

text \<open>
  Claim C8. The path \<^verbatim>\<open>protocol\<close> yields the string of the enumeration member, as does
  every path without a dot that resolves to a member; a path with a dot yields the value
  it resolves to as it is, a member included.
\<close>

theorem unwrap_single_segment_only:
  "get_field_value L c ''protocol'' = PStr (protocol_value (protocol c))
   \<and> (CHR ''.'' \<notin> set fld \<and> resolve_field L c fld = Some (PEnum p)
        \<longrightarrow> get_field_value L c fld = PStr (protocol_value p))
   \<and> (CHR ''.'' \<in> set fld
        \<longrightarrow> get_field_value L c fld = (case resolve_field L c fld of None \<Rightarrow> PNone | Some v \<Rightarrow> v))"
  by (auto simp add: get_field_value_def resolve_field_def split: option.splits)

theorem unwrap_single_segment_only_witness:
  "get_field_value member_lib example_connection ''protocol'' = PStr ''TCP''
   \<and> resolve_field member_lib example_connection ''protocol.UDP'' = Some (PEnum UDP)
   \<and> get_field_value member_lib example_connection ''protocol.UDP'' = PEnum UDP
   \<and> get_field_value member_lib example_connection ''protocol.value'' = PStr ''TCP''"
proof -
  have r: "resolve_field member_lib example_connection ''protocol.UDP'' = Some (PEnum UDP)"
    by (simp add: resolve_field_def member_lib_def example_connection_def)
  have v: "resolve_field member_lib example_connection ''protocol.value'' = Some (PStr ''TCP'')"
    by (simp add: resolve_field_def member_lib_def example_connection_def)
  show ?thesis
    using r v
      unwrap_single_segment_only [of member_lib example_connection "''protocol.UDP''"]
      unwrap_single_segment_only [of member_lib example_connection "''protocol.value''"]
    by (simp add: example_connection_def)
qed


section \<open>The score in the response\<close>

lemma threshold: "float_of_rat (4 / 5) = 3602879701896397 / 4503599627370496"
  using float_080 by simp

lemma round_eighth: "py_round (1 / 8) 2 = 1080863910568919 / 9007199254740992"
  by code_simp

text \<open>
  Claim C9 (the score is returned to the caller unmodified). With the score \<^verbatim>\<open>0.125\<close>
  the response carries \<^verbatim>\<open>round(0.125, 2)\<close>, the double \<^verbatim>\<open>0.12\<close>, while the stored
  record keeps \<^verbatim>\<open>0.125\<close>.
\<close>

theorem score_rounded_counterexample:
  "submit_connection default_lib [] [] ''c-3'' (1 / 8) example_connection =
     Inr (\<lparr>resp_connection_id = ''c-3'', resp_decision = BLOCK,
            resp_anomaly_score = 1080863910568919 / 9007199254740992,
            resp_matched_policy = None\<rparr>,
          [(''c-3'',
            \<lparr>det_connection_id = ''c-3'', det_source_ip = ''192.168.1.100'',
             det_destination_ip = ''10.0.0.1'', det_destination_port = 443,
             det_protocol = TCP, det_timestamp = timestamp example_connection,
             det_decision = BLOCK, det_anomaly_score = 1 / 8,
             det_matched_policy = None\<rparr>)])
   \<and> (1080863910568919 / 9007199254740992 :: pyfloat) \<noteq> 1 / 8"
proof -
  have e: "evaluate default_lib [] example_connection = Inr None"
    by (simp add: evaluate_def get_all_def)
  show ?thesis
    by (subst submit_connection_returns [OF e])
       (simp add: decide_None round_eighth connection_add_def example_connection_def)
qed

text \<open>
  Claim C9, amended. Whenever the engine returns, \<^verbatim>\<open>submit_connection\<close> returns a
  response that carries the score rounded to two decimal places, with the final action
  and the matched policy identifier of the decision; the score itself is stored
  unrounded in the connection record.
\<close>

theorem score_rounded_in_response:
  "evaluate L st c = Inr m \<Longrightarrow>
   \<exists>resp cs' d. submit_connection L st cs cid s c = Inr (resp, cs')
     \<and> resp_anomaly_score resp = py_round s 2
     \<and> resp_decision resp = fst (decide m s)
     \<and> resp_matched_policy resp = snd (decide m s)
     \<and> connection_get cs' cid = Some d
     \<and> det_anomaly_score d = s"
  by (simp add: submit_connection_returns connection_get_def connection_add_def odict_get_set)

theorem score_rounded_in_response_witness:
  "evaluate default_lib (add any_policy []) example_connection = Inr (Some any_policy)
   \<and> (\<exists>resp cs' d. submit_connection default_lib (add any_policy []) [] ''c-4'' (3 / 8)
                       example_connection = Inr (resp, cs')
         \<and> resp_anomaly_score resp = py_round (3 / 8) 2
         \<and> resp_decision resp = ALLOW
         \<and> resp_matched_policy resp = Some ''any''
         \<and> connection_get cs' ''c-4'' = Some d
         \<and> det_anomaly_score d = 3 / 8)"
proof -
  have e: "evaluate default_lib (add any_policy []) example_connection = Inr (Some any_policy)"
    by (simp add: evaluate_def add_def get_all_def matches_policy_def any_policy_def)
  have d: "decide (Some any_policy) (3 / 8) = (ALLOW, Some ''any'')"
    by (simp add: decide_Some threshold any_policy_def)
  show ?thesis
    using e d
      score_rounded_in_response [OF e, of "[]" "''c-4''" "3 / 8"]
    by simp
qed

section \<open>Replacing a policy\<close>

lemma odict_set_keys:
  "k \<in> set (map fst kvs) \<Longrightarrow> map fst (odict_set k v kvs) = map fst kvs"
  by (induction kvs) force+

lemma odict_set_values:
  "k \<in> set (map fst kvs) \<Longrightarrow>
   \<exists>i < length kvs. fst (kvs ! i) = k \<and> (\<forall>j < i. fst (kvs ! j) \<noteq> k)
      \<and> map snd (odict_set k v kvs) = (map snd kvs)[i := v]"
proof (induction kvs)
  case Nil
  then show ?case by simp
next
  case (Cons kv kvs)
  show ?case
  proof (cases "fst kv = k")
    case True
    then have "map snd (odict_set k v (kv # kvs)) = (map snd (kv # kvs))[0 := v]"
      by (cases kv) simp
    with True show ?thesis by (intro exI [of _ 0]) simp
  next
    case False
    with Cons.prems have "k \<in> set (map fst kvs)" by auto
    with Cons.IH obtain i where i: "i < length kvs" "fst (kvs ! i) = k"
      "\<forall>j < i. fst (kvs ! j) \<noteq> k"
      "map snd (odict_set k v kvs) = (map snd kvs)[i := v]" by blast
    from False have "map snd (odict_set k v (kv # kvs)) = (map snd (kv # kvs))[Suc i := v]"
      using i(4) by (cases kv) simp
    moreover have "\<forall>j < Suc i. fst ((kv # kvs) ! j) \<noteq> k"
      using False i(3) by (auto simp add: nth_Cons split: nat.splits)
    ultimately show ?thesis
      using i(1,2) by (intro exI [of _ "Suc i"]) simp
  qed
qed

lemma odict_set_entries:
  "list_all (\<lambda>kv. f (snd kv) = fst kv) kvs \<Longrightarrow> f v = k \<Longrightarrow>
   list_all (\<lambda>kv. f (snd kv) = fst kv) (odict_set k v kvs)"
  by (induction kvs) auto

lemma filed_under_key:
  "list_all (\<lambda>kv. f (snd kv) = fst kv) kvs \<Longrightarrow> map f (map snd kvs) = map fst kvs"
  by (induction kvs) auto

text \<open>
  Claim C10. Adding a policy whose identifier is already a key of the store replaces the
  stored policy where it stands: the store stays well formed (no second entry), the
  sequence of identifiers that \<^verbatim>\<open>get_all\<close> returns is unchanged, and the list of
  policies differs from the old one exactly at the position of that identifier, which
  now holds the new policy. \<^verbatim>\<open>create_policy\<close> does this and returns the policy.
\<close>

theorem add_existing_replaces_in_place:
  "store_ok st \<Longrightarrow> policy_id p \<in> set (map fst st) \<Longrightarrow>
   store_ok (add p st)
   \<and> get (add p st) (policy_id p) = Some p
   \<and> length (get_all (add p st)) = length (get_all st)
   \<and> map policy_id (get_all (add p st)) = map policy_id (get_all st)
   \<and> (\<exists>i < length (get_all st). policy_id (get_all st ! i) = policy_id p
         \<and> get_all (add p st) = (get_all st)[i := p])
   \<and> create_policy p st = (p, add p st)"
proof -
  assume ok: "store_ok st" and present: "policy_id p \<in> set (map fst st)"
  from ok have dist: "distinct (map fst st)"
    and filed: "list_all (\<lambda>kv. policy_id (snd kv) = fst kv) st"
    by (simp_all add: store_ok_def)
  have keys: "map fst (add p st) = map fst st"
    using present by (simp add: add_def odict_set_keys)
  have filed': "list_all (\<lambda>kv. policy_id (snd kv) = fst kv) (add p st)"
    using filed by (simp add: add_def odict_set_entries)
  have 1: "store_ok (add p st)"
    using dist keys filed' by (simp add: store_ok_def)
  have 2: "get (add p st) (policy_id p) = Some p"
    by (simp add: get_def add_def odict_get_set)
  have 3: "length (get_all (add p st)) = length (get_all st)"
    using arg_cong [OF keys, of length] by (simp add: get_all_def)
  have 4: "map policy_id (get_all (add p st)) = map policy_id (get_all st)"
    unfolding get_all_def
    using keys filed_under_key [OF filed] filed_under_key [OF filed'] by (simp only:)
  obtain i where i: "i < length st" "fst (st ! i) = policy_id p"
    "map snd (add p st) = (map snd st)[i := p]"
    using odict_set_values [OF present, of p] by (auto simp add: add_def)
  from filed i(1) have "policy_id (snd (st ! i)) = fst (st ! i)"
    by (simp add: list_all_length)
  with i have 5: "\<exists>i < length (get_all st). policy_id (get_all st ! i) = policy_id p
         \<and> get_all (add p st) = (get_all st)[i := p]"
    by (auto simp add: get_all_def)
  show ?thesis
    using 1 2 3 4 5 by (simp add: create_policy_def)
qed

theorem add_existing_replaces_in_place_witness:
  "store_ok (add any_policy (add late_policy []))
   \<and> policy_id (late_policy\<lparr>action := ALLOW\<rparr>) \<in> set (map fst (add any_policy (add late_policy [])))
   \<and> get_all (add (late_policy\<lparr>action := ALLOW\<rparr>) (add any_policy (add late_policy [])))
       = [late_policy\<lparr>action := ALLOW\<rparr>, any_policy]
   \<and> map policy_id (get_all (add (late_policy\<lparr>action := ALLOW\<rparr>)
         (add any_policy (add late_policy [])))) = [''late'', ''any'']"
proof -
  have ok: "store_ok (add any_policy (add late_policy []))"
    by (simp add: store_ok_def add_def any_policy_def late_policy_def)
  have present: "policy_id (late_policy\<lparr>action := ALLOW\<rparr>)
      \<in> set (map fst (add any_policy (add late_policy [])))"
    by (simp add: add_def any_policy_def late_policy_def)
  show ?thesis
    using ok present add_existing_replaces_in_place [OF ok present]
    by (simp add: add_def get_all_def any_policy_def late_policy_def)
qed


end
